theory Spec2Isabelle
  imports Complex_Main "HOL-Library.Sublist"
begin

section \<open>The games router: filter compilation and enrichment of game rows\<close>

text \<open>
  This theory embeds the games router of the backend (the file that declares
  \<^verbatim>\<open>gameRouter\<close> and \<^verbatim>\<open>formatGames\<close>). The router is written in TypeScript on top of
  services that it imports (\<^verbatim>\<open>gameService\<close>, \<^verbatim>\<open>gameOwnerService\<close>, \<^verbatim>\<open>ratingService\<close>,
  \<^verbatim>\<open>accountService\<close>); those services are not part of the sources at hand, so the router
  is embedded over a record of them.

  Conventions of the embedding:
  \<^item> an object type is a record; a field \<^verbatim>\<open>f\<close> of the object type \<^verbatim>\<open>t\<close> is the selector
    \<open>t_f\<close> when several object types have a field of that name (\<^verbatim>\<open>id\<close>, \<^verbatim>\<open>name\<close>,
    \<^verbatim>\<open>location\<close>, ...), and keeps its own name otherwise;
  \<^item> an optional field, \<^verbatim>\<open>null\<close> and \<^verbatim>\<open>undefined\<close> are \<open>None\<close>;
  \<^item> an integer of the request body is an \<open>int\<close>; a \<^verbatim>\<open>Date\<close> is its time value, an \<open>int\<close>
    (milliseconds since the epoch);
  \<^item> an \<^verbatim>\<open>async\<close> function returns \<open>error + 'a\<close>: \<open>Inl e\<close> is a promise rejected
    with \<open>e\<close>, \<open>Inr v\<close> a promise fulfilled with \<open>v\<close>.
\<close>

subsection \<open>Errors\<close>

datatype error =
  ServiceError string  \<comment> \<open>a rejection raised inside an imported service\<close>
  | TypeError string   \<comment> \<open>reading a property of \<^verbatim>\<open>undefined\<close>\<close>

subsection \<open>Records of the catalog store, as the router reads them\<close>

record borrow =
  returned :: bool

record playStatus =
  userId :: "string option"

record game =
  game_id :: string
  game_name :: string
  game_description :: string
  game_platformName :: string
  game_dateReleased :: int
  game_playtimeMinutes :: int
  game_playerMin :: int
  game_playerMax :: int
  game_location :: string
  game_gameOwnerId :: string
  game_borrow :: "borrow list"
  game_playStatus :: "playStatus list"

record GammaUser =
  cid :: string

record account =
  account_id :: string

subsection \<open>The request body and the compiled filter\<close>

record body =
  body_name :: "string option"
  body_platform :: "string option"
  body_releaseBefore :: "string option"
  body_releaseAfter :: "string option"
  body_playtimeMin :: "int option"
  body_playtimeMax :: "int option"
  body_playerCount :: "int option"
  body_owner :: "string option"
  body_location :: "string option"

text \<open>The objects that the handler stores in the fields of a \<^verbatim>\<open>Filter\<close>.\<close>

record stringFilter =
  contains :: string
  mode :: string

record rangeFilter =
  gte :: "int option"
  lte :: "int option"

record platformFilter =
  platformFilter_name :: string

record Filter =
  filter_name :: "stringFilter option"
  filter_dateReleased :: "rangeFilter option"
  filter_playerMax :: "rangeFilter option"
  filter_playerMin :: "rangeFilter option"
  filter_platform :: "platformFilter option"
  filter_playtimeMinutes :: "rangeFilter option"
  filter_location :: "stringFilter option"

subsection \<open>The enriched row and the request\<close>

record dto =
  dto_id :: string
  dto_name :: string
  dto_description :: string
  dto_platformName :: string
  dto_releaseDate :: string
  dto_playtimeMinutes :: int
  dto_playerMin :: int
  dto_playerMax :: int
  dto_location :: string
  dto_owner :: string
  dto_isBorrowed :: bool
  dto_ratingAvg :: "rat option"
  dto_ratingUser :: "int option"
  dto_isPlayed :: bool

record request =
  isAuthenticated :: bool
  user :: "GammaUser option"
  query_term :: "string option"
  req_body :: body

record response =
  status :: nat
  json :: "dto list"

subsection \<open>The imported services and the built-ins of \<^verbatim>\<open>Date\<close>\<close>

text \<open>
  What the router imports and calls, with the two operations of the built-in \<^verbatim>\<open>Date\<close>
  that it uses: \<open>newDate s\<close> is the time value of \<^verbatim>\<open>new Date(s)\<close> and \<open>toISOString t\<close>
  the text of \<^verbatim>\<open>toISOString()\<close> on a date of time value \<open>t\<close>. The validator of the
  filter route admits only date-time strings and the store holds dates, so no invalid
  \<^verbatim>\<open>Date\<close> occurs. Within one request a service is a function of its arguments: the
  store is read at one snapshot.
\<close>

record services =
  getAllGames :: "error + game list"
  searchGames :: "string \<Rightarrow> error + game list"
  filterGames :: "Filter \<Rightarrow> error + game list"
  getGameOwnerNameFromId :: "string \<Rightarrow> error + string"
  getAverageRating :: "string \<Rightarrow> error + rat option"
  getUserRating :: "string \<Rightarrow> string \<Rightarrow> error + int option"
  getAccountFromCid :: "string \<Rightarrow> error + account option"
  newDate :: "string \<Rightarrow> int"
  toISOString :: "int \<Rightarrow> string"

subsection \<open>Truthiness\<close>

text \<open>
  \<^verbatim>\<open>if (body.name)\<close> tests a value that is a string or \<^verbatim>\<open>undefined\<close>: it holds for a
  string that is not empty. \<^verbatim>\<open>if (body.playerCount)\<close> tests a number or \<^verbatim>\<open>undefined\<close>:
  it holds for a number other than zero.
\<close>

definition truthyString :: "string option \<Rightarrow> bool" where
  "truthyString v = (case v of None \<Rightarrow> False | Some s \<Rightarrow> s \<noteq> [])"

definition truthyNumber :: "int option \<Rightarrow> bool" where
  "truthyNumber v = (case v of None \<Rightarrow> False | Some n \<Rightarrow> n \<noteq> 0)"

subsection \<open>The filter compiler of \<^verbatim>\<open>POST /filter\<close>\<close>

definition emptyFilter :: Filter where
  "emptyFilter =
     \<lparr>filter_name = None, filter_dateReleased = None, filter_playerMax = None,
      filter_playerMin = None, filter_platform = None, filter_playtimeMinutes = None,
      filter_location = None\<rparr>"

text \<open>
  The handler starts from \<^verbatim>\<open>{}\<close> and assigns fields in a sequence of \<^verbatim>\<open>if\<close>
  statements; each statement is one step below, in the order of the source. The field
  \<^verbatim>\<open>owner\<close> of the body is never read.
\<close>

definition compileFilter :: "services \<Rightarrow> body \<Rightarrow> Filter" where
  "compileFilter svc b =
    (let f0 = emptyFilter;
         f1 = (if truthyString (body_name b)
               then f0\<lparr>filter_name :=
                      Some \<lparr>contains = the (body_name b), mode = ''insensitive''\<rparr>\<rparr>
               else f0);
         f2 = (if truthyString (body_releaseAfter b)
               then f1\<lparr>filter_dateReleased :=
                      Some \<lparr>gte = Some (newDate svc (the (body_releaseAfter b))), lte = None\<rparr>\<rparr>
               else f1);
         f3 = (if truthyString (body_releaseBefore b)
               then f2\<lparr>filter_dateReleased :=
                      Some \<lparr>gte = None, lte = Some (newDate svc (the (body_releaseBefore b)))\<rparr>\<rparr>
               else f2);
         f4 = (if truthyString (body_releaseAfter b) \<and> truthyString (body_releaseBefore b)
               then f3\<lparr>filter_dateReleased :=
                      Some \<lparr>gte = Some (newDate svc (the (body_releaseAfter b))),
                            lte = Some (newDate svc (the (body_releaseBefore b)))\<rparr>\<rparr>
               else f3);
         f5 = (if truthyNumber (body_playerCount b)
               then f4\<lparr>filter_playerMax := Some \<lparr>gte = body_playerCount b, lte = None\<rparr>,
                       filter_playerMin := Some \<lparr>gte = None, lte = body_playerCount b\<rparr>\<rparr>
               else f4);
         f6 = (if truthyString (body_platform b)
               then f5\<lparr>filter_platform :=
                      Some \<lparr>platformFilter_name = the (body_platform b)\<rparr>\<rparr>
               else f5);
         f7 = (if truthyNumber (body_playtimeMax b) \<or> truthyNumber (body_playtimeMin b)
               then f6\<lparr>filter_playtimeMinutes :=
                      Some \<lparr>gte = (if truthyNumber (body_playtimeMin b)
                                   then body_playtimeMin b else None),
                            lte = (if truthyNumber (body_playtimeMax b)
                                   then body_playtimeMax b else None)\<rparr>\<rparr>
               else f6);
         f8 = (if truthyString (body_location b)
               then f7\<lparr>filter_location :=
                      Some \<lparr>contains = the (body_location b), mode = ''insensitive''\<rparr>\<rparr>
               else f7)
     in f8)"

subsection \<open>The catalog store's reading of a filter\<close>

text \<open>
  \<^verbatim>\<open>filterGames\<close> of the game service and the database client behind it are not among
  the sources; the handler only builds the filter and passes it on. The meaning of a
  filter is therefore taken from section 4.1 of the specification: \<^verbatim>\<open>gte\<close> and \<^verbatim>\<open>lte\<close>
  are inclusive bounds, \<^verbatim>\<open>contains\<close> with mode \<^verbatim>\<open>insensitive\<close> is a case-insensitive
  substring match, the platform is matched by its exact name, the predicates present are
  combined with AND, and an absent field imposes no constraint.
\<close>

text \<open>Modelled from the spec: case folding of a letter of the Latin alphabet.\<close>

definition toLower :: "char \<Rightarrow> char" where
  "toLower c =
     (if (65::nat) \<le> of_char c \<and> of_char c \<le> (90::nat)
      then char_of (of_char c + (32::nat)) else c)"

text \<open>Modelled from the spec: \<open>xs\<close> occurs in \<open>ys\<close> as a contiguous run.\<close>

fun isInfix :: "'a list \<Rightarrow> 'a list \<Rightarrow> bool" where
  "isInfix xs [] = (xs = [])"
| "isInfix xs (y # ys) = (prefix xs (y # ys) \<or> isInfix xs ys)"

text \<open>
  Modelled from the spec: a substring predicate (\<^verbatim>\<open>contains\<close>), case-insensitive in
  mode \<^verbatim>\<open>insensitive\<close>; an absent predicate holds of every string.
\<close>

definition matchesString :: "stringFilter option \<Rightarrow> string \<Rightarrow> bool" where
  "matchesString p s =
     (case p of
        None \<Rightarrow> True
      | Some q \<Rightarrow>
          if mode q = ''insensitive''
          then isInfix (map toLower (contains q)) (map toLower s)
          else isInfix (contains q) s)"

text \<open>
  Modelled from the spec: a range predicate; \<^verbatim>\<open>gte\<close> is an inclusive lower bound and
  \<^verbatim>\<open>lte\<close> an inclusive upper bound, each only when present.
\<close>

definition matchesRange :: "rangeFilter option \<Rightarrow> int \<Rightarrow> bool" where
  "matchesRange p v =
     (case p of
        None \<Rightarrow> True
      | Some r \<Rightarrow>
          (case gte r of None \<Rightarrow> True | Some lo \<Rightarrow> lo \<le> v) \<and>
          (case lte r of None \<Rightarrow> True | Some hi \<Rightarrow> v \<le> hi))"

text \<open>Modelled from the spec: the platform predicate, an exact match of the name.\<close>

definition matchesPlatform :: "platformFilter option \<Rightarrow> string \<Rightarrow> bool" where
  "matchesPlatform p s =
     (case p of None \<Rightarrow> True | Some q \<Rightarrow> s = platformFilter_name q)"

text \<open>
  Modelled from the spec: a game matches a filter when it satisfies every predicate that
  the filter has.
\<close>

definition matches :: "Filter \<Rightarrow> game \<Rightarrow> bool" where
  "matches f g =
     (matchesString (filter_name f) (game_name g) \<and>
      matchesRange (filter_dateReleased f) (game_dateReleased g) \<and>
      matchesRange (filter_playerMax f) (game_playerMax g) \<and>
      matchesRange (filter_playerMin f) (game_playerMin g) \<and>
      matchesPlatform (filter_platform f) (game_platformName g) \<and>
      matchesRange (filter_playtimeMinutes f) (game_playtimeMinutes g) \<and>
      matchesString (filter_location f) (game_location g))"

text \<open>
  Modelled from the spec: \<^verbatim>\<open>queryGames(predicateSet)\<close> of the catalog store, the stored
  games that match, in the order of the store.
\<close>

definition queryGames :: "game list \<Rightarrow> Filter \<Rightarrow> game list" where
  "queryGames store f = filter (matches f) store"

subsection \<open>\<^verbatim>\<open>formatGames\<close>: one enriched row per game\<close>

text \<open>
  \<^verbatim>\<open>Promise.all\<close> is fulfilled with the values of all its promises, in the order of the
  array, when every one of them is fulfilled, and is rejected as soon as one of them is
  rejected. Which rejection it reports when several promises are rejected depends on the
  order in which they settle; the embedding reports the one of the first rejected promise
  of the array, and no statement below depends on which one is reported.
\<close>

fun Promise_all :: "(error + 'a) list \<Rightarrow> error + 'a list" where
  "Promise_all [] = Inr []"
| "Promise_all (p # ps) =
     (case p of
        Inl e \<Rightarrow> Inl e
      | Inr v \<Rightarrow> (case Promise_all ps of Inl e \<Rightarrow> Inl e | Inr vs \<Rightarrow> Inr (v # vs)))"

text \<open>\<^verbatim>\<open>s.split('T')[0]\<close>: the text before the first \<^verbatim>\<open>T\<close>, all of \<open>s\<close> when it has none.\<close>

definition datePart :: "string \<Rightarrow> string" where
  "datePart s = takeWhile (\<lambda>c. c \<noteq> CHR ''T'') s"

text \<open>
  The borrow status of a loaded game: \<^verbatim>\<open>game.borrow.filter(b => !b.returned).length > 0\<close>.
  \<^verbatim>\<open>filter\<close> builds a new array; the game and its borrow records are only read.
\<close>

definition isBorrowed :: "game \<Rightarrow> bool" where
  "isBorrowed g = (0 < length (filter (\<lambda>b. \<not> returned b) (game_borrow g)))"

text \<open>
  The body of the \<^verbatim>\<open>async\<close> arrow function that \<^verbatim>\<open>formatGames\<close> maps over the games.
  The properties of the object literal are evaluated in the order written, so the three
  awaited calls happen in the order owner, average rating, rating of the user, and the
  first rejection ends the function.
\<close>

definition formatGame :: "services \<Rightarrow> GammaUser option \<Rightarrow> game \<Rightarrow> error + dto" where
  "formatGame svc usr g =
     (case getGameOwnerNameFromId svc (game_gameOwnerId g) of
        Inl e \<Rightarrow> Inl e
      | Inr ownerName \<Rightarrow>
          (case getAverageRating svc (game_id g) of
             Inl e \<Rightarrow> Inl e
           | Inr avg \<Rightarrow>
               (case (case usr of
                        None \<Rightarrow> Inr None
                      | Some u \<Rightarrow> getUserRating svc (game_id g) (cid u)) of
                  Inl e \<Rightarrow> Inl e
                | Inr own \<Rightarrow>
                    Inr \<lparr>dto_id = game_id g,
                         dto_name = game_name g,
                         dto_description = game_description g,
                         dto_platformName = game_platformName g,
                         dto_releaseDate = datePart (toISOString svc (game_dateReleased g)),
                         dto_playtimeMinutes = game_playtimeMinutes g,
                         dto_playerMin = game_playerMin g,
                         dto_playerMax = game_playerMax g,
                         dto_location = game_location g,
                         dto_owner = ownerName,
                         dto_isBorrowed = isBorrowed g,
                         dto_ratingAvg = avg,
                         dto_ratingUser = own,
                         dto_isPlayed = False\<rparr>)))"

definition formatGames :: "services \<Rightarrow> game list \<Rightarrow> GammaUser option \<Rightarrow> error + dto list" where
  "formatGames svc games usr = Promise_all (map (formatGame svc usr) games)"

subsection \<open>The played flags of \<^verbatim>\<open>POST /filter\<close>\<close>

text \<open>
  \<^verbatim>\<open>played.userId == uid\<close> is the loose equality: two strings are equal when they are
  the same string, \<^verbatim>\<open>null\<close> and \<^verbatim>\<open>undefined\<close> are equal to each other and to nothing
  else. With both of them \<open>None\<close> this is the equality of \<open>string option\<close>.
\<close>

definition playedBy :: "string option \<Rightarrow> game \<Rightarrow> bool" where
  "playedBy uid g =
     (0 < length (filter (\<lambda>played. userId played = uid) (game_playStatus g)))"

text \<open>
  The \<^verbatim>\<open>for\<close> loop over \<^verbatim>\<open>i\<close>, from the value of \<^verbatim>\<open>i\<close> it is entered with. It writes the
  field \<^verbatim>\<open>isPlayed\<close> of \<^verbatim>\<open>formattedGames[i]\<close> in place; reading \<^verbatim>\<open>games[i].playStatus\<close>
  beyond the end of \<^verbatim>\<open>games\<close> is a \<^verbatim>\<open>TypeError\<close>.
\<close>

function assignPlayed ::
  "nat \<Rightarrow> dto list \<Rightarrow> game list \<Rightarrow> string option \<Rightarrow> error + dto list" where
  "assignPlayed i formattedGames games uid =
     (if i < length formattedGames then
        (if i < length games then
           assignPlayed (Suc i)
             (formattedGames[i := (formattedGames ! i)\<lparr>dto_isPlayed := playedBy uid (games ! i)\<rparr>])
             games uid
         else Inl (TypeError ''Cannot read properties of undefined''))
      else Inr formattedGames)"
  by pat_completeness auto
termination
  by (relation "measure (\<lambda>(i, formattedGames, games, uid). length formattedGames - i)") auto

declare assignPlayed.simps [simp del]

subsection \<open>The three listing routes\<close>

text \<open>
  A handler is an \<^verbatim>\<open>async\<close> function: \<open>Inr r\<close> is the response it sends, \<open>Inl e\<close> a
  rejection that leaves the handler without a response having been sent. The body of
  \<^verbatim>\<open>POST /filter\<close> has passed the validator of the route before the handler runs.
\<close>

definition requestUser :: "request \<Rightarrow> GammaUser option" where
  "requestUser req = (if isAuthenticated req then user req else None)"

definition getGames :: "services \<Rightarrow> request \<Rightarrow> error + response" where
  "getGames svc req =
     (case getAllGames svc of
        Inl e \<Rightarrow> Inl e
      | Inr games \<Rightarrow>
          (case formatGames svc games (requestUser req) of
             Inl e \<Rightarrow> Inl e
           | Inr formattedGames \<Rightarrow> Inr \<lparr>status = 200, json = formattedGames\<rparr>))"

definition getSearch :: "services \<Rightarrow> request \<Rightarrow> error + response" where
  "getSearch svc req =
     (case searchGames svc (case query_term req of Some t \<Rightarrow> t | None \<Rightarrow> []) of
        Inl e \<Rightarrow> Inl e
      | Inr games \<Rightarrow>
          (case formatGames svc games (requestUser req) of
             Inl e \<Rightarrow> Inl e
           | Inr formattedGames \<Rightarrow> Inr \<lparr>status = 200, json = formattedGames\<rparr>))"

definition postFilter :: "services \<Rightarrow> request \<Rightarrow> error + response" where
  "postFilter svc req =
     (case filterGames svc (compileFilter svc (req_body req)) of
        Inl e \<Rightarrow> Inl e
      | Inr games \<Rightarrow>
          (case formatGames svc games (requestUser req) of
             Inl e \<Rightarrow> Inl e
           | Inr formattedGames \<Rightarrow>
               (case user req of
                  None \<Rightarrow> Inr \<lparr>status = 200, json = formattedGames\<rparr>
                | Some u \<Rightarrow>
                    (case getAccountFromCid svc (cid u) of
                       Inl e \<Rightarrow> Inl e
                     | Inr acct \<Rightarrow>
                         (case assignPlayed 0 formattedGames games (map_option account_id acct) of
                            Inl e \<Rightarrow> Inl e
                          | Inr flagged \<Rightarrow> Inr \<lparr>status = 200, json = flagged\<rparr>)))))"

subsection \<open>The rating aggregator\<close>

text \<open>
  Modelled from the spec: a rating record (section 3), the score that a user gave a game.
\<close>

record rating =
  rating_gameId :: string
  rating_userId :: string
  rating_score :: int

text \<open>
  Modelled from the spec: \<^verbatim>\<open>ratingsFor(gameId)\<close> of the catalog store (section 6), the
  rating records of a game in the snapshot \<open>store\<close>.
\<close>

definition ratingsFor :: "rating list \<Rightarrow> string \<Rightarrow> rating list" where
  "ratingsFor store gameId = filter (\<lambda>r. rating_gameId r = gameId) store"

text \<open>
  Modelled from the spec: the rating aggregator (\<^verbatim>\<open>getAverageRating\<close> of the rating
  service is not among the sources; the router only calls it). Section 4.3 of the
  specification: given a game id, the arithmetic mean of all rating scores of that game,
  or the empty value when the game has no rating.
\<close>

definition averageRating :: "rating list \<Rightarrow> string \<Rightarrow> rat option" where
  "averageRating store gameId =
     (let scores = map rating_score (ratingsFor store gameId)
      in if scores = [] then None
         else Some (of_int (sum_list scores) / of_int (int (length scores))))"

subsection \<open>Sample data\<close>

text \<open>
  Concrete requests, games and services on which the statements below are evaluated. The
  sample services answer from a list of games and from the sample ratings; the store
  evaluates a filter as \<open>queryGames\<close> does. The owner \<^verbatim>\<open>owner1\<close> resolves to a name and
  every other owner id is rejected; the external id \<^verbatim>\<open>cid1\<close> resolves to the account
  \<^verbatim>\<open>acc1\<close> and no other external id resolves to an account.
\<close>

definition emptyBody :: body where
  "emptyBody =
     \<lparr>body_name = None, body_platform = None, body_releaseBefore = None,
      body_releaseAfter = None, body_playtimeMin = None, body_playtimeMax = None,
      body_playerCount = None, body_owner = None, body_location = None\<rparr>"

definition sampleGame ::
  "string \<Rightarrow> string \<Rightarrow> int \<Rightarrow> int \<Rightarrow> borrow list \<Rightarrow> playStatus list \<Rightarrow> game" where
  "sampleGame gid ownerId pmin pmax bs ps =
     \<lparr>game_id = gid, game_name = ''Settlers of Catan'', game_description = ''A board game'',
      game_platformName = ''Board'', game_dateReleased = 1672531200000,
      game_playtimeMinutes = 60, game_playerMin = pmin, game_playerMax = pmax,
      game_location = ''Hubben'', game_gameOwnerId = ownerId, game_borrow = bs,
      game_playStatus = ps\<rparr>"

definition sampleRatings :: "rating list" where
  "sampleRatings =
     [\<lparr>rating_gameId = ''g1'', rating_userId = ''acc1'', rating_score = 4\<rparr>,
      \<lparr>rating_gameId = ''g1'', rating_userId = ''acc2'', rating_score = 5\<rparr>,
      \<lparr>rating_gameId = ''g2'', rating_userId = ''acc1'', rating_score = 3\<rparr>]"

definition sampleServices :: "game list \<Rightarrow> services" where
  "sampleServices store =
     \<lparr>getAllGames = Inr store,
      searchGames = (\<lambda>t. Inr (queryGames store
         (emptyFilter\<lparr>filter_name := Some \<lparr>contains = t, mode = ''insensitive''\<rparr>\<rparr>))),
      filterGames = (\<lambda>f. Inr (queryGames store f)),
      getGameOwnerNameFromId =
        (\<lambda>ownerId. if ownerId = ''owner1'' then Inr ''Alice''
                   else Inl (ServiceError ''Game owner not found'')),
      getAverageRating = (\<lambda>gid. Inr (averageRating sampleRatings gid)),
      getUserRating = (\<lambda>gid c. Inr (if gid = ''g1'' \<and> c = ''cid1'' then Some 4 else None)),
      getAccountFromCid =
        (\<lambda>c. Inr (if c = ''cid1'' then Some \<lparr>account_id = ''acc1''\<rparr> else None)),
      newDate =
        (\<lambda>s. if s = ''2023-01-01T00:00:00.000Z'' then 1672531200000
             else if s = ''2020-01-01T00:00:00.000Z'' then 1577836800000
             else 0),
      toISOString = (\<lambda>t. ''2023-01-01T00:00:00.000Z'')\<rparr>"

definition sampleRequest :: "GammaUser option \<Rightarrow> body \<Rightarrow> request" where
  "sampleRequest u b =
     \<lparr>isAuthenticated = (u \<noteq> None), user = u, query_term = None, req_body = b\<rparr>"

text \<open>
  Three games with the player ranges 2 to 6, 5 to 5 and 1 to 3. The first has one open
  borrow and a play mark of the account \<^verbatim>\<open>acc1\<close>; the second has only returned borrows,
  a play mark of another account and one without a user id; the third has neither borrows
  nor play marks.
\<close>

definition sampleStore :: "game list" where
  "sampleStore =
     [sampleGame ''g1'' ''owner1'' 2 6 [\<lparr>returned = True\<rparr>, \<lparr>returned = False\<rparr>]
        [\<lparr>userId = Some ''acc1''\<rparr>],
      sampleGame ''g2'' ''owner1'' 5 5 [\<lparr>returned = True\<rparr>]
        [\<lparr>userId = Some ''acc2''\<rparr>, \<lparr>userId = None\<rparr>],
      sampleGame ''g3'' ''owner1'' 1 3 [] []]"

text \<open>A store whose second game belongs to an owner that does not resolve to a name.\<close>

definition orphanStore :: "game list" where
  "orphanStore =
     [sampleGame ''g1'' ''owner1'' 2 6 [] [],
      sampleGame ''g4'' ''owner2'' 2 4 [] []]"

text \<open>The row that \<^verbatim>\<open>formatGames\<close> builds for a sample game under the sample services.\<close>

definition sampleRow ::
  "string \<Rightarrow> int \<Rightarrow> int \<Rightarrow> bool \<Rightarrow> rat option \<Rightarrow> int option \<Rightarrow> bool \<Rightarrow> dto" where
  "sampleRow gid pmin pmax borrowed avg own played =
     \<lparr>dto_id = gid, dto_name = ''Settlers of Catan'', dto_description = ''A board game'',
      dto_platformName = ''Board'', dto_releaseDate = ''2023-01-01'',
      dto_playtimeMinutes = 60, dto_playerMin = pmin, dto_playerMax = pmax,
      dto_location = ''Hubben'', dto_owner = ''Alice'', dto_isBorrowed = borrowed,
      dto_ratingAvg = avg, dto_ratingUser = own, dto_isPlayed = played\<rparr>"

text \<open>
  Two request bodies with both release bounds: one whose lower bound lies after its upper
  bound, and one whose bounds enclose the release date of the sample games, the upper
  bound being that date itself.
\<close>

definition reversedRangeBody :: body where
  "reversedRangeBody =
     emptyBody\<lparr>body_releaseAfter := Some ''2023-01-01T00:00:00.000Z'',
               body_releaseBefore := Some ''2020-01-01T00:00:00.000Z''\<rparr>"

definition enclosingRangeBody :: body where
  "enclosingRangeBody =
     emptyBody\<lparr>body_releaseAfter := Some ''2020-01-01T00:00:00.000Z'',
               body_releaseBefore := Some ''2023-01-01T00:00:00.000Z''\<rparr>"

section \<open>Lemmas on the embedding\<close>

subsection \<open>\<^verbatim>\<open>Promise.all\<close> and \<^verbatim>\<open>formatGames\<close>\<close>

lemma Promise_all_map_Inr: "Promise_all (map Inr vs) = Inr vs"
  by (induction vs) auto

lemma Promise_all_Inr_D: "Promise_all ps = Inr vs \<Longrightarrow> ps = map Inr vs"
  by (induction ps arbitrary: vs) (auto split: sum.splits)

lemma Promise_all_Inr: "Promise_all ps = Inr vs \<longleftrightarrow> ps = map Inr vs"
  using Promise_all_map_Inr Promise_all_Inr_D by blast

lemma Promise_all_Inl: "(\<exists>e. Promise_all ps = Inl e) \<longleftrightarrow> (\<exists>p\<in>set ps. isl p)"
  by (induction ps) (auto split: sum.splits)

lemma formatGames_Inr:
  "formatGames svc games usr = Inr dtos \<longleftrightarrow>
     length dtos = length games \<and>
     (\<forall>i<length games. formatGame svc usr (games ! i) = Inr (dtos ! i))"
  unfolding formatGames_def Promise_all_Inr
  by (auto simp: list_eq_iff_nth_eq)

lemma formatGames_Nil: "formatGames svc [] usr = Inr []"
  by (simp add: formatGames_def)

lemma filter_nonempty_iff: "0 < length (filter P xs) \<longleftrightarrow> (\<exists>x\<in>set xs. P x)"
  by (simp add: filter_empty_conv)

lemma isBorrowed_iff: "isBorrowed g \<longleftrightarrow> (\<exists>b\<in>set (game_borrow g). \<not> returned b)"
  unfolding isBorrowed_def by (rule filter_nonempty_iff)

lemma playedBy_iff: "playedBy uid g \<longleftrightarrow> (\<exists>p\<in>set (game_playStatus g). userId p = uid)"
  unfolding playedBy_def by (rule filter_nonempty_iff)

lemma formatGame_fields:
  assumes "formatGame svc usr g = Inr d"
  shows "dto_id d = game_id g" "dto_isBorrowed d = isBorrowed g" "\<not> dto_isPlayed d"
    "usr = None \<Longrightarrow> dto_ratingUser d = None"
    "getAverageRating svc (game_id g) = Inr (dto_ratingAvg d)"
    "getGameOwnerNameFromId svc (game_gameOwnerId g) = Inr (dto_owner d)"
  using assms unfolding formatGame_def
  by (auto split: sum.splits option.splits)

lemma formatGame_owner_fails:
  "getGameOwnerNameFromId svc (game_gameOwnerId g) = Inl e \<Longrightarrow> formatGame svc usr g = Inl e"
  unfolding formatGame_def by simp

lemma formatGames_owner_fails:
  assumes "g \<in> set games" "getGameOwnerNameFromId svc (game_gameOwnerId g) = Inl e"
  shows "\<exists>e'. formatGames svc games usr = Inl e'"
proof -
  have "formatGame svc usr g \<in> set (map (formatGame svc usr) games)"
    using assms(1) by simp
  moreover have "isl (formatGame svc usr g)"
    using formatGame_owner_fails[OF assms(2)] by simp
  ultimately show ?thesis
    unfolding formatGames_def Promise_all_Inl by blast
qed

lemma requestUser_anonymous: "user req = None \<Longrightarrow> requestUser req = None"
  by (simp add: requestUser_def)

lemma formatGames_anonymous_rows:
  assumes "formatGames svc games None = Inr dtos" "d \<in> set dtos"
  shows "\<not> dto_isPlayed d \<and> dto_ratingUser d = None"
proof -
  from assms(2) obtain i where i: "i < length dtos" "d = dtos ! i"
    by (auto simp: in_set_conv_nth)
  with assms(1) have "formatGame svc None (games ! i) = Inr d"
    by (simp add: formatGames_Inr)
  then show ?thesis
    using formatGame_fields(3,4)[of svc None "games ! i" d] by simp
qed

subsection \<open>The compiled filter\<close>

lemma matchesRange_simps:
  "matchesRange None v"
  "matchesRange (Some \<lparr>gte = Some lo, lte = None\<rparr>) v \<longleftrightarrow> lo \<le> v"
  "matchesRange (Some \<lparr>gte = None, lte = Some hi\<rparr>) v \<longleftrightarrow> v \<le> hi"
  "matchesRange (Some \<lparr>gte = Some lo, lte = Some hi\<rparr>) v \<longleftrightarrow> lo \<le> v \<and> v \<le> hi"
  by (simp_all add: matchesRange_def)

lemma compileFilter_dateReleased_both:
  assumes "body_releaseAfter b = Some a" "a \<noteq> []" "body_releaseBefore b = Some z" "z \<noteq> []"
  shows "filter_dateReleased (compileFilter svc b) =
           Some \<lparr>gte = Some (newDate svc a), lte = Some (newDate svc z)\<rparr>"
  using assms by (simp add: compileFilter_def Let_def truthyString_def)

lemma compileFilter_playerCount:
  assumes "body_playerCount b = Some n" "n \<noteq> 0"
  shows "filter_playerMax (compileFilter svc b) = Some \<lparr>gte = Some n, lte = None\<rparr>"
    and "filter_playerMin (compileFilter svc b) = Some \<lparr>gte = None, lte = Some n\<rparr>"
  using assms by (simp_all add: compileFilter_def Let_def truthyNumber_def)

lemma compileFilter_emptyBody: "compileFilter svc emptyBody = emptyFilter"
  by (simp add: compileFilter_def emptyBody_def Let_def truthyString_def truthyNumber_def)

lemma matches_emptyFilter: "matches emptyFilter g"
  by (simp add: matches_def emptyFilter_def matchesString_def matchesRange_def matchesPlatform_def)

lemma matches_playerCount_only:
  "n \<noteq> 0 \<Longrightarrow> matches (compileFilter svc (emptyBody\<lparr>body_playerCount := Some n\<rparr>)) g \<longleftrightarrow>
     game_playerMin g \<le> n \<and> n \<le> game_playerMax g"
  by (auto simp: matches_def compileFilter_def emptyBody_def emptyFilter_def Let_def
      truthyString_def truthyNumber_def matchesString_def matchesRange_def matchesPlatform_def)

subsection \<open>The loop over the rows and the filter route\<close>

lemma assignPlayed_closed:
  "length formattedGames \<le> length games \<Longrightarrow>
   assignPlayed i formattedGames games uid =
     Inr (map (\<lambda>j. if i \<le> j then (formattedGames ! j)\<lparr>dto_isPlayed := playedBy uid (games ! j)\<rparr>
                    else formattedGames ! j) [0..<length formattedGames])"
proof (induction i formattedGames games uid rule: assignPlayed.induct)
  case (1 i formattedGames games uid)
  let ?row = "\<lambda>fg k j. if k \<le> j then (fg ! j)\<lparr>dto_isPlayed := playedBy uid (games ! j)\<rparr> else fg ! j"
  show ?case
  proof (cases "i < length formattedGames")
    case True
    with "1.prems" have ig: "i < length games" by simp
    let ?fg = "formattedGames[i := (formattedGames ! i)\<lparr>dto_isPlayed := playedBy uid (games ! i)\<rparr>]"
    have step: "assignPlayed i formattedGames games uid = assignPlayed (Suc i) ?fg games uid"
      using True ig by (subst assignPlayed.simps) simp
    have ih: "assignPlayed (Suc i) ?fg games uid = Inr (map (?row ?fg (Suc i)) [0..<length ?fg])"
      using "1.IH"[OF True ig] "1.prems" by simp
    have "map (?row ?fg (Suc i)) [0..<length ?fg] = map (?row formattedGames i) [0..<length formattedGames]"
    proof (rule nth_equalityI)
      show "length (map (?row ?fg (Suc i)) [0..<length ?fg])
          = length (map (?row formattedGames i) [0..<length formattedGames])"
        by simp
    next
      fix k
      assume "k < length (map (?row ?fg (Suc i)) [0..<length ?fg])"
      then have k: "k < length formattedGames" by simp
      consider "k < i" | "k = i" | "i < k" by linarith
      then show "map (?row ?fg (Suc i)) [0..<length ?fg] ! k
          = map (?row formattedGames i) [0..<length formattedGames] ! k"
        using k by cases (simp_all add: nth_list_update)
    qed
    with step ih show ?thesis by simp
  next
    case False
    then show ?thesis
      by (subst assignPlayed.simps) (auto intro!: nth_equalityI)
  qed
qed

lemma assignPlayed_Nil: "assignPlayed 0 [] games uid = Inr []"
  by (subst assignPlayed.simps) simp

lemma postFilter_no_games:
  assumes "filterGames svc (compileFilter svc (req_body req)) = Inr []"
      and "\<forall>u. user req = Some u \<longrightarrow> \<not> isl (getAccountFromCid svc (cid u))"
  shows "postFilter svc req = Inr \<lparr>status = 200, json = []\<rparr>"
proof (cases "user req")
  case None
  then show ?thesis
    using assms(1) by (simp add: postFilter_def formatGames_Nil)
next
  case (Some u)
  with assms(2) obtain acct where "getAccountFromCid svc (cid u) = Inr acct"
    by (cases "getAccountFromCid svc (cid u)") auto
  then show ?thesis
    using assms(1) Some by (simp add: postFilter_def formatGames_Nil assignPlayed_Nil)
qed

lemma postFilter_resolved:
  assumes "filterGames svc (compileFilter svc (req_body req)) = Inr games"
      and "formatGames svc games (requestUser req) = Inr fg"
      and "user req = Some u"
      and "getAccountFromCid svc (cid u) = Inr acct"
  shows "postFilter svc req =
           Inr \<lparr>status = 200,
                json = map (\<lambda>j. (fg ! j)\<lparr>dto_isPlayed :=
                                   playedBy (map_option account_id acct) (games ! j)\<rparr>)
                         [0..<length fg]\<rparr>"
proof -
  have "length fg \<le> length games"
    using assms(2) by (simp add: formatGames_Inr)
  from assignPlayed_closed[OF this, of 0 "map_option account_id acct"]
  show ?thesis
    using assms by (simp add: postFilter_def)
qed

lemma postFilter_anonymous:
  assumes "user req = None"
  shows "postFilter svc req =
     (case filterGames svc (compileFilter svc (req_body req)) of
        Inl e \<Rightarrow> Inl e
      | Inr games \<Rightarrow>
          (case formatGames svc games None of
             Inl e \<Rightarrow> Inl e
           | Inr formattedGames \<Rightarrow> Inr \<lparr>status = 200, json = formattedGames\<rparr>))"
  using assms by (simp add: postFilter_def requestUser_def split: sum.splits)

lemma postFilter_rows:
  assumes "postFilter svc req = Inr r"
      and "filterGames svc (compileFilter svc (req_body req)) = Inr games"
  shows "\<exists>fg. formatGames svc games (requestUser req) = Inr fg \<and>
              status r = 200 \<and>
              length (json r) = length games \<and>
              (\<forall>i<length games. \<exists>p. json r ! i = (fg ! i)\<lparr>dto_isPlayed := p\<rparr>) \<and>
              (\<forall>u acct. user req = Some u \<and> getAccountFromCid svc (cid u) = Inr acct \<longrightarrow>
                 (\<forall>i<length games. dto_isPlayed (json r ! i) =
                     playedBy (map_option account_id acct) (games ! i)))"
proof -
  from assms obtain fg where fg: "formatGames svc games (requestUser req) = Inr fg"
    by (auto simp: postFilter_def split: sum.splits)
  then have len: "length fg = length games"
    by (simp add: formatGames_Inr)
  show ?thesis
  proof (cases "user req")
    case None
    with assms fg have r: "r = \<lparr>status = 200, json = fg\<rparr>"
      by (simp add: postFilter_def)
    have "\<exists>p. fg ! i = (fg ! i)\<lparr>dto_isPlayed := p\<rparr>" for i
      by (rule exI[of _ "dto_isPlayed (fg ! i)"]) simp
    with fg len r None show ?thesis by simp
  next
    case (Some u)
    with assms fg obtain acct where acct: "getAccountFromCid svc (cid u) = Inr acct"
      by (auto simp: postFilter_def split: sum.splits)
    from postFilter_resolved[OF assms(2) fg Some acct] assms(1)
    have r: "r = \<lparr>status = 200,
                json = map (\<lambda>j. (fg ! j)\<lparr>dto_isPlayed :=
                                   playedBy (map_option account_id acct) (games ! j)\<rparr>)
                         [0..<length fg]\<rparr>"
      by simp
    show ?thesis
      using fg len Some acct by (auto simp: r)
  qed
qed

subsection \<open>The sample data\<close>

lemma sample_filterGames:
  "filterGames (sampleServices store) f = Inr (queryGames store f)"
  by (simp add: sampleServices_def)

lemma sample_rows:
  "formatGames (sampleServices store) sampleStore usr =
     Inr [sampleRow ''g1'' 2 6 True (Some (9 / 2))
            (if map_option cid usr = Some ''cid1'' then Some 4 else None) False,
          sampleRow ''g2'' 5 5 False (Some 3) None False,
          sampleRow ''g3'' 1 3 False None None False]"
  by (cases usr)
    (simp_all add: formatGames_def formatGame_def sampleServices_def sampleStore_def
      sampleGame_def sampleRow_def isBorrowed_def datePart_def averageRating_def
      ratingsFor_def sampleRatings_def)

lemma sample_compile_empty:
  "filterGames (sampleServices store) (compileFilter (sampleServices store) (req_body (sampleRequest u emptyBody))) = Inr store"
  by (simp add: sample_filterGames sampleRequest_def compileFilter_emptyBody queryGames_def
      matches_emptyFilter)

section \<open>The claims\<close>

text \<open>
  Claim C1. When the body carries both \<^verbatim>\<open>releaseAfter\<close> and \<^verbatim>\<open>releaseBefore\<close> (two
  strings that are not empty, as every string that the validator accepts as a date-time
  is), the compiled predicate on \<^verbatim>\<open>dateReleased\<close> is one object with both bounds, the
  lower bound from \<^verbatim>\<open>releaseAfter\<close> and the upper bound from \<^verbatim>\<open>releaseBefore\<close>: a date
  satisfies it exactly when it lies in the closed interval between them, and every game
  that the whole filter matches has its release date in that interval. When the lower
  bound lies after the upper bound no game of the store matches, and the route answers
  with status 200 and an empty list (given that the store answers the query and that the
  account lookup, when there is a user, does not fail).
\<close>

theorem release_range_combined:
  assumes "body_releaseAfter b = Some a" "a \<noteq> []" "body_releaseBefore b = Some z" "z \<noteq> []"
  shows "filter_dateReleased (compileFilter svc b) =
           Some \<lparr>gte = Some (newDate svc a), lte = Some (newDate svc z)\<rparr> \<and>
         (matchesRange (filter_dateReleased (compileFilter svc b)) d \<longleftrightarrow>
            newDate svc a \<le> d \<and> d \<le> newDate svc z) \<and>
         (matches (compileFilter svc b) g \<longrightarrow>
            newDate svc a \<le> game_dateReleased g \<and> game_dateReleased g \<le> newDate svc z) \<and>
         (newDate svc z < newDate svc a \<longrightarrow> queryGames store (compileFilter svc b) = []) \<and>
         (newDate svc z < newDate svc a \<and> req_body req = b \<and>
          filterGames svc (compileFilter svc b) = Inr (queryGames store (compileFilter svc b)) \<and>
          (\<forall>u. user req = Some u \<longrightarrow> \<not> isl (getAccountFromCid svc (cid u))) \<longrightarrow>
            postFilter svc req = Inr \<lparr>status = 200, json = []\<rparr>)"
proof -
  note c = compileFilter_dateReleased_both[OF assms, of svc]
  have m: "newDate svc a \<le> game_dateReleased h \<and> game_dateReleased h \<le> newDate svc z"
    if "matches (compileFilter svc b) h" for h
    using that by (simp add: matches_def c matchesRange_simps)
  have e: "queryGames store (compileFilter svc b) = []" if "newDate svc z < newDate svc a"
  proof -
    have "\<not> matches (compileFilter svc b) h" for h
      using m[of h] that by auto
    then show ?thesis by (simp add: queryGames_def)
  qed
  have r: "postFilter svc req = Inr \<lparr>status = 200, json = []\<rparr>"
    if "newDate svc z < newDate svc a" "req_body req = b"
       "filterGames svc (compileFilter svc b) = Inr (queryGames store (compileFilter svc b))"
       "\<forall>u. user req = Some u \<longrightarrow> \<not> isl (getAccountFromCid svc (cid u))"
    using postFilter_no_games[of svc req] that e by simp
  show ?thesis
    using m[of g] e r by (simp add: c matchesRange_simps)
qed

theorem release_range_combined_witness:
  "body_releaseAfter reversedRangeBody = Some ''2023-01-01T00:00:00.000Z'' \<and>
   ''2023-01-01T00:00:00.000Z'' \<noteq> [] \<and>
   body_releaseBefore reversedRangeBody = Some ''2020-01-01T00:00:00.000Z'' \<and>
   ''2020-01-01T00:00:00.000Z'' \<noteq> [] \<and>
   filter_dateReleased (compileFilter (sampleServices sampleStore) reversedRangeBody) =
     Some \<lparr>gte = Some 1672531200000, lte = Some 1577836800000\<rparr> \<and>
   queryGames sampleStore (compileFilter (sampleServices sampleStore) reversedRangeBody) = [] \<and>
   postFilter (sampleServices sampleStore) (sampleRequest None reversedRangeBody) =
     Inr \<lparr>status = 200, json = []\<rparr> \<and>
   filter_dateReleased (compileFilter (sampleServices sampleStore) enclosingRangeBody) =
     Some \<lparr>gte = Some 1577836800000, lte = Some 1672531200000\<rparr> \<and>
   matchesRange (filter_dateReleased (compileFilter (sampleServices sampleStore) enclosingRangeBody))
     1672531200000 \<and>
   \<not> matchesRange (filter_dateReleased (compileFilter (sampleServices sampleStore) enclosingRangeBody))
     1672531200001"
proof -
  have h1: "body_releaseAfter reversedRangeBody = Some ''2023-01-01T00:00:00.000Z''"
    and h3: "body_releaseBefore reversedRangeBody = Some ''2020-01-01T00:00:00.000Z''"
    and k1: "body_releaseAfter enclosingRangeBody = Some ''2020-01-01T00:00:00.000Z''"
    and k3: "body_releaseBefore enclosingRangeBody = Some ''2023-01-01T00:00:00.000Z''"
    by (simp_all add: reversedRangeBody_def enclosingRangeBody_def emptyBody_def)
  have h2: "''2023-01-01T00:00:00.000Z'' \<noteq> []" and h4: "''2020-01-01T00:00:00.000Z'' \<noteq> []"
    by simp_all
  have d: "newDate (sampleServices sampleStore) ''2023-01-01T00:00:00.000Z'' = 1672531200000"
    "newDate (sampleServices sampleStore) ''2020-01-01T00:00:00.000Z'' = 1577836800000"
    by (simp_all add: sampleServices_def)
  have r: "req_body (sampleRequest None reversedRangeBody) = reversedRangeBody"
    "user (sampleRequest None reversedRangeBody) = None"
    by (simp_all add: sampleRequest_def)
  have rev: "filter_dateReleased (compileFilter (sampleServices sampleStore) reversedRangeBody) =
     Some \<lparr>gte = Some 1672531200000, lte = Some 1577836800000\<rparr> \<and>
   queryGames sampleStore (compileFilter (sampleServices sampleStore) reversedRangeBody) = [] \<and>
   postFilter (sampleServices sampleStore) (sampleRequest None reversedRangeBody) =
     Inr \<lparr>status = 200, json = []\<rparr>"
    using release_range_combined[OF h1 h2 h3 h4, of "sampleServices sampleStore" _ _ sampleStore
        "sampleRequest None reversedRangeBody"]
      d r sample_filterGames[of sampleStore]
    by simp
  have enc: "filter_dateReleased (compileFilter (sampleServices sampleStore) enclosingRangeBody) =
     Some \<lparr>gte = Some 1577836800000, lte = Some 1672531200000\<rparr>"
    using release_range_combined[OF k1 h4 k3 h2, of "sampleServices sampleStore"] d
    by simp
  have "matchesRange (filter_dateReleased (compileFilter (sampleServices sampleStore) enclosingRangeBody))
       1672531200000 \<longleftrightarrow>
     newDate (sampleServices sampleStore) ''2020-01-01T00:00:00.000Z'' \<le> 1672531200000 \<and>
     1672531200000 \<le> newDate (sampleServices sampleStore) ''2023-01-01T00:00:00.000Z''"
    using release_range_combined[OF k1 h4 k3 h2, of "sampleServices sampleStore" 1672531200000]
    by blast
  then have inc: "matchesRange
      (filter_dateReleased (compileFilter (sampleServices sampleStore) enclosingRangeBody))
      1672531200000"
    by (simp add: d)
  have "matchesRange (filter_dateReleased (compileFilter (sampleServices sampleStore) enclosingRangeBody))
       1672531200001 \<longleftrightarrow>
     newDate (sampleServices sampleStore) ''2020-01-01T00:00:00.000Z'' \<le> 1672531200001 \<and>
     1672531200001 \<le> newDate (sampleServices sampleStore) ''2023-01-01T00:00:00.000Z''"
    using release_range_combined[OF k1 h4 k3 h2, of "sampleServices sampleStore" 1672531200001]
    by blast
  then have exc: "\<not> matchesRange
      (filter_dateReleased (compileFilter (sampleServices sampleStore) enclosingRangeBody))
      1672531200001"
    by (simp add: d)
  from h1 h2 h3 h4 rev enc inc exc show ?thesis
    by blast
qed

text \<open>
  Claim C2. For the game at any position of the batch, the field \<^verbatim>\<open>isBorrowed\<close> of its
  row is true exactly when one of the borrow records loaded with the game has
  \<^verbatim>\<open>returned = false\<close>. This holds for the rows of \<^verbatim>\<open>formatGames\<close> and for the rows
  that the filter route sends. A game without borrow records and a game whose borrow
  records are all returned are not borrowed. The value is computed by \<open>isBorrowed\<close>, a
  function of the loaded game that reads its borrow records and changes nothing.
\<close>

theorem isBorrowed_iff_open_borrow:
  assumes "i < length games"
  shows "(formatGames svc games usr = Inr dtos \<longrightarrow>
            dto_isBorrowed (dtos ! i) = (\<exists>b\<in>set (game_borrow (games ! i)). \<not> returned b)) \<and>
         (filterGames svc (compileFilter svc (req_body req)) = Inr games \<and>
          postFilter svc req = Inr r \<longrightarrow>
            dto_isBorrowed (json r ! i) = (\<exists>b\<in>set (game_borrow (games ! i)). \<not> returned b)) \<and>
         (game_borrow (games ! i) = [] \<longrightarrow> \<not> isBorrowed (games ! i)) \<and>
         ((\<forall>b\<in>set (game_borrow (games ! i)). returned b) \<longrightarrow> \<not> isBorrowed (games ! i))"
proof -
  have a: "dto_isBorrowed (fg ! i) = (\<exists>b\<in>set (game_borrow (games ! i)). \<not> returned b)"
    if "formatGames svc games u = Inr fg" for fg u
  proof -
    from that assms have "formatGame svc u (games ! i) = Inr (fg ! i)"
      by (simp add: formatGames_Inr)
    from formatGame_fields(2)[OF this] show ?thesis
      by (simp add: isBorrowed_iff)
  qed
  have b: "dto_isBorrowed (json r ! i) = (\<exists>b\<in>set (game_borrow (games ! i)). \<not> returned b)"
    if "filterGames svc (compileFilter svc (req_body req)) = Inr games"
       "postFilter svc req = Inr r"
  proof -
    from postFilter_rows[OF that(2) that(1)] assms
    obtain fg p where "formatGames svc games (requestUser req) = Inr fg"
        "json r ! i = (fg ! i)\<lparr>dto_isPlayed := p\<rparr>"
      by blast
    with a[of "requestUser req" fg] show ?thesis by simp
  qed
  show ?thesis
    using a[of usr dtos] b by (auto simp: isBorrowed_iff)
qed

theorem isBorrowed_iff_open_borrow_witness:
  "(0::nat) < length sampleStore \<and> (1::nat) < length sampleStore \<and> (2::nat) < length sampleStore \<and>
   (\<exists>dtos. formatGames (sampleServices sampleStore) sampleStore None = Inr dtos \<and>
      dto_isBorrowed (dtos ! 0) \<and> \<not> dto_isBorrowed (dtos ! 1) \<and> \<not> dto_isBorrowed (dtos ! 2)) \<and>
   \<not> isBorrowed (sampleStore ! 1) \<and> \<not> isBorrowed (sampleStore ! 2)"
proof -
  have l: "(0::nat) < length sampleStore" "(1::nat) < length sampleStore"
    "(2::nat) < length sampleStore"
    by (simp_all add: sampleStore_def)
  obtain dtos where f: "formatGames (sampleServices sampleStore) sampleStore None = Inr dtos"
    using sample_rows[of sampleStore None] by simp
  have b: "game_borrow (sampleStore ! 0) = [\<lparr>returned = True\<rparr>, \<lparr>returned = False\<rparr>]"
    "game_borrow (sampleStore ! 1) = [\<lparr>returned = True\<rparr>]"
    "game_borrow (sampleStore ! 2) = []"
    by (simp_all add: sampleStore_def sampleGame_def)
  show ?thesis
    using isBorrowed_iff_open_borrow[OF l(1), of "sampleServices sampleStore" None dtos]
      isBorrowed_iff_open_borrow[OF l(2), of "sampleServices sampleStore" None dtos]
      isBorrowed_iff_open_borrow[OF l(3), of "sampleServices sampleStore" None dtos]
      l f b
    by simp
qed

text \<open>
  Claim C3. The body without any field compiles to the filter without any predicate, and
  that filter matches every game: the store's answer to it is the whole store.
\<close>

theorem empty_filter_matches_every_game:
  "compileFilter svc emptyBody = emptyFilter \<and>
   matches (compileFilter svc emptyBody) g \<and>
   queryGames store (compileFilter svc emptyBody) = store"
  by (simp add: compileFilter_emptyBody matches_emptyFilter queryGames_def)

text \<open>
  Claim C4. On the filter route, for a user whose external id resolves to an account, when
  the store answers with the batch \<open>games\<close> and the rows are built, the response has one
  row per game, in the order of the batch, and the row of a game has \<^verbatim>\<open>isPlayed = true\<close>
  exactly when one of the play marks loaded with that game belongs to the account. The
  flag of a row depends on its own game only, so neither the size of the batch nor the
  order of its games changes it.
\<close>

theorem played_flags_exactly_marked:
  assumes "filterGames svc (compileFilter svc (req_body req)) = Inr games"
      and "formatGames svc games (requestUser req) = Inr fg"
      and "user req = Some u"
      and "getAccountFromCid svc (cid u) = Inr (Some acct)"
  shows "\<exists>dtos. postFilter svc req = Inr \<lparr>status = 200, json = dtos\<rparr> \<and>
           length dtos = length games \<and>
           (\<forall>i<length games.
               dto_id (dtos ! i) = game_id (games ! i) \<and>
               dto_isPlayed (dtos ! i) =
                 (\<exists>p\<in>set (game_playStatus (games ! i)). userId p = Some (account_id acct)))"
proof -
  have len: "length fg = length games"
    using assms(2) by (simp add: formatGames_Inr)
  have ids: "dto_id (fg ! i) = game_id (games ! i)" if "i < length games" for i
  proof -
    from assms(2) that have "formatGame svc (requestUser req) (games ! i) = Inr (fg ! i)"
      by (simp add: formatGames_Inr)
    then show ?thesis by (rule formatGame_fields(1))
  qed
  show ?thesis
    using postFilter_resolved[OF assms] len ids
    by (simp add: playedBy_iff)
qed

theorem played_flags_exactly_marked_witness:
  "filterGames (sampleServices sampleStore)
     (compileFilter (sampleServices sampleStore)
        (req_body (sampleRequest (Some \<lparr>cid = ''cid1''\<rparr>) emptyBody))) = Inr sampleStore \<and>
   user (sampleRequest (Some \<lparr>cid = ''cid1''\<rparr>) emptyBody) = Some \<lparr>cid = ''cid1''\<rparr> \<and>
   getAccountFromCid (sampleServices sampleStore) (cid \<lparr>cid = ''cid1''\<rparr>) =
     Inr (Some \<lparr>account_id = ''acc1''\<rparr>) \<and>
   (\<exists>dtos. postFilter (sampleServices sampleStore)
              (sampleRequest (Some \<lparr>cid = ''cid1''\<rparr>) emptyBody) =
              Inr \<lparr>status = 200, json = dtos\<rparr> \<and>
            length dtos = 3 \<and>
            dto_id (dtos ! 0) = ''g1'' \<and> dto_isPlayed (dtos ! 0) \<and>
            dto_id (dtos ! 1) = ''g2'' \<and> \<not> dto_isPlayed (dtos ! 1) \<and>
            dto_id (dtos ! 2) = ''g3'' \<and> \<not> dto_isPlayed (dtos ! 2))"
proof -
  let ?svc = "sampleServices sampleStore"
  let ?req = "sampleRequest (Some \<lparr>cid = ''cid1''\<rparr>) emptyBody"
  have h1: "filterGames ?svc (compileFilter ?svc (req_body ?req)) = Inr sampleStore"
    by (rule sample_compile_empty)
  obtain fg where h2: "formatGames ?svc sampleStore (requestUser ?req) = Inr fg"
    using sample_rows[of sampleStore "requestUser ?req"] by simp
  have h3: "user ?req = Some \<lparr>cid = ''cid1''\<rparr>"
    by (simp add: sampleRequest_def)
  have h4: "getAccountFromCid ?svc (cid \<lparr>cid = ''cid1''\<rparr>) = Inr (Some \<lparr>account_id = ''acc1''\<rparr>)"
    by (simp add: sampleServices_def)
  have l: "length sampleStore = 3" by (simp add: sampleStore_def)
  have g: "game_id (sampleStore ! 0) = ''g1''" "game_id (sampleStore ! Suc 0) = ''g2''"
    "game_id (sampleStore ! 2) = ''g3''"
    "game_playStatus (sampleStore ! 0) = [\<lparr>userId = Some ''acc1''\<rparr>]"
    "game_playStatus (sampleStore ! Suc 0) = [\<lparr>userId = Some ''acc2''\<rparr>, \<lparr>userId = None\<rparr>]"
    "game_playStatus (sampleStore ! 2) = []"
    by (simp_all add: sampleStore_def sampleGame_def)
  from played_flags_exactly_marked[OF h1 h2 h3 h4]
  obtain dtos where d: "postFilter ?svc ?req = Inr \<lparr>status = 200, json = dtos\<rparr>"
      "length dtos = length sampleStore"
      "\<forall>i<length sampleStore.
          dto_id (dtos ! i) = game_id (sampleStore ! i) \<and>
          dto_isPlayed (dtos ! i) =
            (\<exists>p\<in>set (game_playStatus (sampleStore ! i)).
                userId p = Some (account_id \<lparr>account_id = ''acc1''\<rparr>))"
    by blast
  from d(3) l have "dto_id (dtos ! 0) = game_id (sampleStore ! 0) \<and>
      dto_isPlayed (dtos ! 0) = (\<exists>p\<in>set (game_playStatus (sampleStore ! 0)). userId p = Some ''acc1'')"
    "dto_id (dtos ! 1) = game_id (sampleStore ! 1) \<and>
      dto_isPlayed (dtos ! 1) = (\<exists>p\<in>set (game_playStatus (sampleStore ! 1)). userId p = Some ''acc1'')"
    "dto_id (dtos ! 2) = game_id (sampleStore ! 2) \<and>
      dto_isPlayed (dtos ! 2) = (\<exists>p\<in>set (game_playStatus (sampleStore ! 2)). userId p = Some ''acc1'')"
    by simp_all
  then have "dto_id (dtos ! 0) = ''g1'' \<and> dto_isPlayed (dtos ! 0) \<and>
            dto_id (dtos ! 1) = ''g2'' \<and> \<not> dto_isPlayed (dtos ! 1) \<and>
            dto_id (dtos ! 2) = ''g3'' \<and> \<not> dto_isPlayed (dtos ! 2)"
    by (simp add: g)
  with d(1,2) l h1 h3 h4 show ?thesis by simp
qed

text \<open>
  Claim C5, amended. When the body carries a \<^verbatim>\<open>playerCount\<close> other than zero (the
  validator admits 1 to 2000), the compiled filter bounds \<^verbatim>\<open>playerMax\<close> from below and
  \<^verbatim>\<open>playerMin\<close> from above by it, so a game satisfies the two predicates exactly when
  \<open>playerMin \<le> playerCount \<le> playerMax\<close>; a filter with \<^verbatim>\<open>playerCount\<close> alone matches
  exactly those games. In particular the filter \<^verbatim>\<open>{playerCount: 4}\<close> over games with the
  player ranges (2, 6), (5, 5) and (1, 3) returns exactly the first one.
\<close>

theorem playerCount_predicate:
  assumes "body_playerCount b = Some n" "n \<noteq> 0"
  shows "filter_playerMax (compileFilter svc b) = Some \<lparr>gte = Some n, lte = None\<rparr> \<and>
         filter_playerMin (compileFilter svc b) = Some \<lparr>gte = None, lte = Some n\<rparr> \<and>
         (matchesRange (filter_playerMax (compileFilter svc b)) (game_playerMax g) \<and>
          matchesRange (filter_playerMin (compileFilter svc b)) (game_playerMin g) \<longleftrightarrow>
            game_playerMin g \<le> n \<and> n \<le> game_playerMax g) \<and>
         (matches (compileFilter svc (emptyBody\<lparr>body_playerCount := Some n\<rparr>)) g \<longleftrightarrow>
            game_playerMin g \<le> n \<and> n \<le> game_playerMax g) \<and>
         queryGames sampleStore (compileFilter svc (emptyBody\<lparr>body_playerCount := Some 4\<rparr>)) =
           [sampleStore ! 0]"
proof -
  have "queryGames sampleStore (compileFilter svc (emptyBody\<lparr>body_playerCount := Some 4\<rparr>)) =
           [sampleStore ! 0]"
    by (simp add: queryGames_def matches_playerCount_only sampleStore_def sampleGame_def)
  then show ?thesis
    using assms(2) compileFilter_playerCount[OF assms, of svc]
    by (auto simp: matchesRange_simps matches_playerCount_only)
qed

theorem playerCount_predicate_witness:
  "body_playerCount (emptyBody\<lparr>body_playerCount := Some 4\<rparr>) = Some 4 \<and> (4::int) \<noteq> 0 \<and>
   filter_playerMax (compileFilter (sampleServices sampleStore)
       (emptyBody\<lparr>body_playerCount := Some 4\<rparr>)) = Some \<lparr>gte = Some 4, lte = None\<rparr> \<and>
   filter_playerMin (compileFilter (sampleServices sampleStore)
       (emptyBody\<lparr>body_playerCount := Some 4\<rparr>)) = Some \<lparr>gte = None, lte = Some 4\<rparr> \<and>
   matches (compileFilter (sampleServices sampleStore) (emptyBody\<lparr>body_playerCount := Some 4\<rparr>))
     (sampleGame ''g1'' ''owner1'' 2 6 [] []) \<and>
   \<not> matches (compileFilter (sampleServices sampleStore) (emptyBody\<lparr>body_playerCount := Some 4\<rparr>))
     (sampleGame ''g2'' ''owner1'' 5 5 [] []) \<and>
   queryGames sampleStore
     (compileFilter (sampleServices sampleStore) (emptyBody\<lparr>body_playerCount := Some 4\<rparr>)) =
     [sampleStore ! 0]"
proof -
  have h1: "body_playerCount (emptyBody\<lparr>body_playerCount := Some 4\<rparr>) = Some 4"
    by simp
  have h2: "(4::int) \<noteq> 0" by simp
  show ?thesis
    using playerCount_predicate[OF h1 h2, of "sampleServices sampleStore"
        "sampleGame ''g1'' ''owner1'' 2 6 [] []"]
      playerCount_predicate[OF h1 h2, of "sampleServices sampleStore"
        "sampleGame ''g2'' ''owner1'' 5 5 [] []"]
    by (simp add: sampleGame_def)
qed

text \<open>
  The scenario of claim C5 as it is stated: the filter \<^verbatim>\<open>{playerCount: 4}\<close> over the three
  sample games, whose player ranges are (2, 6), (5, 5) and (1, 3), does not return the
  first two. The second game needs five players.
\<close>

theorem playerCount_scenario_counterexample:
  "queryGames sampleStore
     (compileFilter (sampleServices sampleStore) (emptyBody\<lparr>body_playerCount := Some 4\<rparr>)) \<noteq>
   [sampleStore ! 0, sampleStore ! 1]"
  by (simp add: queryGames_def matches_playerCount_only sampleStore_def sampleGame_def)

text \<open>
  Claim C6. For a request without a user (\<^verbatim>\<open>req.user\<close> is not set), every row that
  \<^verbatim>\<open>formatGames\<close> builds for it, and every row that any of the three listing routes
  sends, has \<^verbatim>\<open>isPlayed = false\<close> and \<^verbatim>\<open>ratingUser = null\<close>, whatever the games, their
  play marks and the services.
\<close>

theorem anonymous_rows_unplayed_unrated:
  assumes "user req = None"
  shows "(formatGames svc games (requestUser req) = Inr dtos \<longrightarrow>
            (\<forall>d\<in>set dtos. \<not> dto_isPlayed d \<and> dto_ratingUser d = None)) \<and>
         (getGames svc req = Inr r1 \<longrightarrow>
            (\<forall>d\<in>set (json r1). \<not> dto_isPlayed d \<and> dto_ratingUser d = None)) \<and>
         (getSearch svc req = Inr r2 \<longrightarrow>
            (\<forall>d\<in>set (json r2). \<not> dto_isPlayed d \<and> dto_ratingUser d = None)) \<and>
         (postFilter svc req = Inr r3 \<longrightarrow>
            (\<forall>d\<in>set (json r3). \<not> dto_isPlayed d \<and> dto_ratingUser d = None))"
proof -
  note u = requestUser_anonymous[OF assms]
  have a: "formatGames svc games (requestUser req) = Inr dtos \<longrightarrow>
            (\<forall>d\<in>set dtos. \<not> dto_isPlayed d \<and> dto_ratingUser d = None)"
    using formatGames_anonymous_rows[of svc games dtos] by (simp add: u)
  have b: "getGames svc req = Inr r1 \<longrightarrow>
            (\<forall>d\<in>set (json r1). \<not> dto_isPlayed d \<and> dto_ratingUser d = None)"
    using formatGames_anonymous_rows[of svc _ "json r1"]
    by (auto simp: getGames_def u split: sum.splits)
  have c: "getSearch svc req = Inr r2 \<longrightarrow>
            (\<forall>d\<in>set (json r2). \<not> dto_isPlayed d \<and> dto_ratingUser d = None)"
    using formatGames_anonymous_rows[of svc _ "json r2"]
    by (auto simp: getSearch_def u split: sum.splits)
  have d: "postFilter svc req = Inr r3 \<longrightarrow>
            (\<forall>d\<in>set (json r3). \<not> dto_isPlayed d \<and> dto_ratingUser d = None)"
    using formatGames_anonymous_rows[of svc _ "json r3"]
    by (auto simp: postFilter_anonymous[OF assms] split: sum.splits)
  from a b c d show ?thesis by blast
qed

theorem anonymous_rows_unplayed_unrated_witness:
  "user (sampleRequest None emptyBody) = None \<and>
   (\<exists>rows. getGames (sampleServices sampleStore) (sampleRequest None emptyBody) =
              Inr \<lparr>status = 200, json = rows\<rparr> \<and>
            getSearch (sampleServices sampleStore) (sampleRequest None emptyBody) =
              Inr \<lparr>status = 200, json = rows\<rparr> \<and>
            postFilter (sampleServices sampleStore) (sampleRequest None emptyBody) =
              Inr \<lparr>status = 200, json = rows\<rparr> \<and>
            length rows = 3 \<and>
            list_all (\<lambda>d. \<not> dto_isPlayed d \<and> dto_ratingUser d = None) rows)"
proof -
  let ?svc = "sampleServices sampleStore"
  let ?req = "sampleRequest None emptyBody"
  have h: "user ?req = None"
    by (simp add: sampleRequest_def)
  obtain rows where f: "formatGames ?svc sampleStore (requestUser ?req) = Inr rows"
      and l: "length rows = 3"
    using sample_rows[of sampleStore "requestUser ?req"] by simp
  have a: "getAllGames ?svc = Inr sampleStore"
    by (simp add: sampleServices_def)
  have b: "searchGames ?svc (case query_term ?req of Some t \<Rightarrow> t | None \<Rightarrow> []) = Inr sampleStore"
    by (simp add: sampleServices_def sampleRequest_def queryGames_def matches_def emptyFilter_def
        matchesString_def matchesRange_def matchesPlatform_def sampleStore_def sampleGame_def)
  have c: "filterGames ?svc (compileFilter ?svc (req_body ?req)) = Inr sampleStore"
    by (rule sample_compile_empty)
  have r1: "getGames ?svc ?req = Inr \<lparr>status = 200, json = rows\<rparr>"
    using a f by (simp add: getGames_def)
  have r2: "getSearch ?svc ?req = Inr \<lparr>status = 200, json = rows\<rparr>"
    using b f by (simp add: getSearch_def)
  have r3: "postFilter ?svc ?req = Inr \<lparr>status = 200, json = rows\<rparr>"
    using c f h by (simp add: postFilter_def)
  have "list_all (\<lambda>d. \<not> dto_isPlayed d \<and> dto_ratingUser d = None) rows"
    using anonymous_rows_unplayed_unrated[OF h, of ?svc sampleStore rows
        "\<lparr>status = 200, json = rows\<rparr>" "\<lparr>status = 200, json = rows\<rparr>"
        "\<lparr>status = 200, json = rows\<rparr>"] f r1 r2 r3
    by (simp add: list_all_iff)
  with h r1 r2 r3 l show ?thesis by blast
qed

text \<open>
  Claim C7. The rating aggregator returns the empty value for a game without rating
  records; for a game with rating records it returns the sum of their scores divided by
  their number, which is not zero. It is a function of the snapshot and the game id. The
  field \<^verbatim>\<open>ratingAvg\<close> of a row is what the aggregator returned for the id of its game.
\<close>

theorem averageRating_mean_or_empty:
  "(ratingsFor store gameId = [] \<longrightarrow> averageRating store gameId = None) \<and>
   (ratingsFor store gameId \<noteq> [] \<longrightarrow>
      0 < length (ratingsFor store gameId) \<and>
      averageRating store gameId =
        Some (of_int (sum_list (map rating_score (ratingsFor store gameId))) /
              of_int (int (length (ratingsFor store gameId))))) \<and>
   (getAverageRating svc (game_id g) = Inr (averageRating store (game_id g)) \<and>
    formatGame svc usr g = Inr d \<longrightarrow> dto_ratingAvg d = averageRating store (game_id g))"
  using formatGame_fields(5)[of svc usr g d]
  by (auto simp: averageRating_def Let_def)

theorem averageRating_mean_or_empty_witness:
  "ratingsFor sampleRatings ''g3'' = [] \<and> averageRating sampleRatings ''g3'' = None \<and>
   ratingsFor sampleRatings ''g1'' \<noteq> [] \<and> averageRating sampleRatings ''g1'' = Some (9 / 2) \<and>
   getAverageRating (sampleServices sampleStore) (game_id (sampleStore ! 0)) =
     Inr (averageRating sampleRatings (game_id (sampleStore ! 0))) \<and>
   (\<exists>d. formatGame (sampleServices sampleStore) None (sampleStore ! 0) = Inr d \<and>
        dto_ratingAvg d = Some (9 / 2))"
proof -
  let ?svc = "sampleServices sampleStore"
  let ?g = "sampleStore ! 0"
  let ?d = "sampleRow ''g1'' 2 6 True (Some (9 / 2)) None False"
  have e: "ratingsFor sampleRatings ''g3'' = []"
    by (simp add: ratingsFor_def sampleRatings_def)
  have n: "ratingsFor sampleRatings ''g1'' =
              [\<lparr>rating_gameId = ''g1'', rating_userId = ''acc1'', rating_score = 4\<rparr>,
               \<lparr>rating_gameId = ''g1'', rating_userId = ''acc2'', rating_score = 5\<rparr>]"
    by (simp add: ratingsFor_def sampleRatings_def)
  then have ne: "ratingsFor sampleRatings ''g1'' \<noteq> []"
    by simp
  have s: "getAverageRating ?svc (game_id ?g) = Inr (averageRating sampleRatings (game_id ?g))"
    by (simp add: sampleServices_def)
  have i: "game_id ?g = ''g1''"
    by (simp add: sampleStore_def sampleGame_def)
  have "0 < length sampleStore"
    by (simp add: sampleStore_def)
  moreover have "\<forall>i<length sampleStore. formatGame ?svc None (sampleStore ! i) =
      Inr ([?d, sampleRow ''g2'' 5 5 False (Some 3) None False,
            sampleRow ''g3'' 1 3 False None None False] ! i)"
    using sample_rows[of sampleStore None] by (simp add: formatGames_Inr)
  ultimately have "formatGame ?svc None ?g =
      Inr ([?d, sampleRow ''g2'' 5 5 False (Some 3) None False,
            sampleRow ''g3'' 1 3 False None None False] ! 0)"
    by blast
  then have d: "formatGame ?svc None ?g = Inr ?d"
    by simp
  note t3 = averageRating_mean_or_empty[of sampleRatings "''g3''" ?svc ?g None ?d]
  note t1 = averageRating_mean_or_empty[of sampleRatings "''g1''" ?svc ?g None ?d]
  from t3 e have a3: "averageRating sampleRatings ''g3'' = None"
    by blast
  from t1 ne have "averageRating sampleRatings ''g1'' =
        Some (of_int (sum_list (map rating_score (ratingsFor sampleRatings ''g1''))) /
              of_int (int (length (ratingsFor sampleRatings ''g1''))))"
    by blast
  then have a1: "averageRating sampleRatings ''g1'' = Some (9 / 2)"
    by (simp add: n)
  from t1 s d have "dto_ratingAvg ?d = averageRating sampleRatings (game_id ?g)"
    by blast
  then have "dto_ratingAvg ?d = Some (9 / 2)"
    by (simp only: i a1)
  with d have x: "\<exists>d. formatGame ?svc None ?g = Inr d \<and> dto_ratingAvg d = Some (9 / 2)"
    by blast
  from e a3 ne a1 s x show ?thesis
    by blast
qed

text \<open>
  Claim C8. When the owner-name lookup is rejected for one game of the batch,
  \<^verbatim>\<open>formatGames\<close> is rejected for the whole batch, and each of the three listing routes
  whose store query returned that batch is rejected as well: no response with rows is
  sent.
\<close>

theorem owner_failure_aborts_request:
  assumes "g \<in> set games"
      and "getGameOwnerNameFromId svc (game_gameOwnerId g) = Inl e"
  shows "(\<exists>e'. formatGames svc games usr = Inl e') \<and>
         (getAllGames svc = Inr games \<longrightarrow> (\<exists>e'. getGames svc req = Inl e')) \<and>
         (searchGames svc (case query_term req of Some t \<Rightarrow> t | None \<Rightarrow> []) = Inr games \<longrightarrow>
            (\<exists>e'. getSearch svc req = Inl e')) \<and>
         (filterGames svc (compileFilter svc (req_body req)) = Inr games \<longrightarrow>
            (\<exists>e'. postFilter svc req = Inl e'))"
proof -
  from formatGames_owner_fails[OF assms, of "requestUser req"]
  obtain e1 where e1: "formatGames svc games (requestUser req) = Inl e1" ..
  show ?thesis
    using formatGames_owner_fails[OF assms, of usr] e1
    by (simp add: getGames_def getSearch_def postFilter_def)
qed

theorem owner_failure_aborts_request_witness:
  "orphanStore ! 1 \<in> set orphanStore \<and>
   getGameOwnerNameFromId (sampleServices orphanStore) (game_gameOwnerId (orphanStore ! 1)) =
     Inl (ServiceError ''Game owner not found'') \<and>
   getAllGames (sampleServices orphanStore) = Inr orphanStore \<and>
   filterGames (sampleServices orphanStore)
     (compileFilter (sampleServices orphanStore) (req_body (sampleRequest None emptyBody))) =
     Inr orphanStore \<and>
   (\<exists>e. formatGames (sampleServices orphanStore) orphanStore None = Inl e) \<and>
   (\<exists>e. getGames (sampleServices orphanStore) (sampleRequest None emptyBody) = Inl e) \<and>
   (\<exists>e. postFilter (sampleServices orphanStore) (sampleRequest None emptyBody) = Inl e)"
proof -
  let ?svc = "sampleServices orphanStore"
  let ?req = "sampleRequest None emptyBody"
  have h1: "orphanStore ! 1 \<in> set orphanStore"
    by (simp add: orphanStore_def)
  have h2: "getGameOwnerNameFromId ?svc (game_gameOwnerId (orphanStore ! 1)) =
              Inl (ServiceError ''Game owner not found'')"
    by (simp add: sampleServices_def orphanStore_def sampleGame_def)
  have a: "getAllGames ?svc = Inr orphanStore"
    by (simp add: sampleServices_def)
  have c: "filterGames ?svc (compileFilter ?svc (req_body ?req)) = Inr orphanStore"
    by (rule sample_compile_empty)
  from owner_failure_aborts_request[OF h1 h2, of None ?req] a c
  have "(\<exists>e. formatGames ?svc orphanStore None = Inl e) \<and>
        (\<exists>e. getGames ?svc ?req = Inl e) \<and> (\<exists>e. postFilter ?svc ?req = Inl e)"
    by blast
  with h1 h2 a c show ?thesis by blast
qed

text \<open>
  Claim C9. \<^verbatim>\<open>formatGames\<close> is fulfilled with \<open>dtos\<close> exactly when \<open>dtos\<close> has the length
  of the batch and its row at each position is the row built from the game at that
  position. On the filter route, the response then has one row per game, the row at a
  position carries the id of the game at that position, and for a user whose account
  lookup returned \<open>acct\<close> its flag \<^verbatim>\<open>isPlayed\<close> is the one computed from the play marks of
  that same game.
\<close>

theorem formatGames_positional:
  "(formatGames svc games usr = Inr dtos \<longleftrightarrow>
      length dtos = length games \<and>
      (\<forall>i<length games. formatGame svc usr (games ! i) = Inr (dtos ! i))) \<and>
   (filterGames svc (compileFilter svc (req_body req)) = Inr games \<and>
    postFilter svc req = Inr r \<longrightarrow>
      length (json r) = length games \<and>
      (\<forall>i<length games.
          dto_id (json r ! i) = game_id (games ! i) \<and>
          (\<forall>u acct. user req = Some u \<and> getAccountFromCid svc (cid u) = Inr acct \<longrightarrow>
             dto_isPlayed (json r ! i) = playedBy (map_option account_id acct) (games ! i))))"
proof -
  have "length (json r) = length games \<and>
      (\<forall>i<length games.
          dto_id (json r ! i) = game_id (games ! i) \<and>
          (\<forall>u acct. user req = Some u \<and> getAccountFromCid svc (cid u) = Inr acct \<longrightarrow>
             dto_isPlayed (json r ! i) = playedBy (map_option account_id acct) (games ! i)))"
    if f: "filterGames svc (compileFilter svc (req_body req)) = Inr games"
    and p: "postFilter svc req = Inr r"
  proof -
    from postFilter_rows[OF p f] obtain fg where
      fg: "formatGames svc games (requestUser req) = Inr fg"
      and len: "length (json r) = length games"
      and rows: "\<forall>i<length games. \<exists>p. json r ! i = (fg ! i)\<lparr>dto_isPlayed := p\<rparr>"
      and played: "\<forall>u acct. user req = Some u \<and> getAccountFromCid svc (cid u) = Inr acct \<longrightarrow>
                 (\<forall>i<length games. dto_isPlayed (json r ! i) =
                     playedBy (map_option account_id acct) (games ! i))"
      by blast
    have "dto_id (json r ! i) = game_id (games ! i)" if "i < length games" for i
    proof -
      from fg that have "formatGame svc (requestUser req) (games ! i) = Inr (fg ! i)"
        by (simp add: formatGames_Inr)
      from formatGame_fields(1)[OF this] rows that show ?thesis by auto
    qed
    with len played show ?thesis by blast
  qed
  then show ?thesis
    using formatGames_Inr[of svc games usr dtos] by blast
qed

theorem formatGames_positional_witness:
  "(\<exists>dtos. formatGames (sampleServices sampleStore) sampleStore None = Inr dtos \<and>
      length dtos = length sampleStore \<and>
      formatGame (sampleServices sampleStore) None (sampleStore ! 2) = Inr (dtos ! 2)) \<and>
   filterGames (sampleServices sampleStore)
     (compileFilter (sampleServices sampleStore)
        (req_body (sampleRequest (Some \<lparr>cid = ''cid1''\<rparr>) emptyBody))) = Inr sampleStore \<and>
   (\<exists>r. postFilter (sampleServices sampleStore)
          (sampleRequest (Some \<lparr>cid = ''cid1''\<rparr>) emptyBody) = Inr r \<and>
        length (json r) = 3 \<and>
        dto_id (json r ! 0) = ''g1'' \<and> dto_isPlayed (json r ! 0) \<and>
        dto_id (json r ! 2) = ''g3'' \<and> \<not> dto_isPlayed (json r ! 2))"
proof -
  let ?svc = "sampleServices sampleStore"
  let ?req = "sampleRequest (Some \<lparr>cid = ''cid1''\<rparr>) emptyBody"
  have l: "length sampleStore = 3"
    by (simp add: sampleStore_def)
  obtain dtos where f: "formatGames ?svc sampleStore None = Inr dtos"
    using sample_rows[of sampleStore None] by simp
  obtain fg where f': "formatGames ?svc sampleStore (requestUser ?req) = Inr fg"
    using sample_rows[of sampleStore "requestUser ?req"] by simp
  have c: "filterGames ?svc (compileFilter ?svc (req_body ?req)) = Inr sampleStore"
    by (rule sample_compile_empty)
  have u: "user ?req = Some \<lparr>cid = ''cid1''\<rparr>"
    by (simp add: sampleRequest_def)
  have k: "getAccountFromCid ?svc (cid \<lparr>cid = ''cid1''\<rparr>) = Inr (Some \<lparr>account_id = ''acc1''\<rparr>)"
    by (simp add: sampleServices_def)
  obtain r where r: "postFilter ?svc ?req = Inr r"
    using postFilter_resolved[OF c f' u k] by blast
  have g: "game_id (sampleStore ! 0) = ''g1''" "game_id (sampleStore ! 2) = ''g3''"
    "playedBy (Some ''acc1'') (sampleStore ! 0)" "\<not> playedBy (Some ''acc1'') (sampleStore ! 2)"
    by (simp_all add: sampleStore_def sampleGame_def playedBy_def)
  note t = formatGames_positional[of ?svc sampleStore None dtos ?req r]
  from t f have p1: "length dtos = length sampleStore \<and>
      (\<forall>i<length sampleStore. formatGame ?svc None (sampleStore ! i) = Inr (dtos ! i))"
    by blast
  then have p2: "formatGame ?svc None (sampleStore ! 2) = Inr (dtos ! 2)"
    using l by simp
  from t c r have q: "length (json r) = length sampleStore \<and>
      (\<forall>i<length sampleStore.
          dto_id (json r ! i) = game_id (sampleStore ! i) \<and>
          (\<forall>u acct. user ?req = Some u \<and> getAccountFromCid ?svc (cid u) = Inr acct \<longrightarrow>
             dto_isPlayed (json r ! i) = playedBy (map_option account_id acct) (sampleStore ! i)))"
    by blast
  have q0: "dto_id (json r ! 0) = game_id (sampleStore ! 0) \<and>
            dto_isPlayed (json r ! 0) =
              playedBy (map_option account_id (Some \<lparr>account_id = ''acc1''\<rparr>)) (sampleStore ! 0)"
    using q l u k by auto
  have q2: "dto_id (json r ! 2) = game_id (sampleStore ! 2) \<and>
            dto_isPlayed (json r ! 2) =
              playedBy (map_option account_id (Some \<lparr>account_id = ''acc1''\<rparr>)) (sampleStore ! 2)"
    using q l u k by auto
  have "length (json r) = 3 \<and>
        dto_id (json r ! 0) = ''g1'' \<and> dto_isPlayed (json r ! 0) \<and>
        dto_id (json r ! 2) = ''g3'' \<and> \<not> dto_isPlayed (json r ! 2)"
    using q q0 q2 l g by simp
  with f p1 p2 c r show ?thesis by blast
qed

text \<open>
  Claim C10. On the filter route, for a user whose external id resolves to no account, when
  the store answers with the batch \<open>games\<close> and the rows are built, the request is answered
  with status 200 and one row per game, and the row of a game has \<^verbatim>\<open>isPlayed = true\<close>
  exactly when one of its play marks has no user id. Every game all of whose play marks
  have a user id is therefore reported as not played.
\<close>

theorem unresolved_account_has_no_marks:
  assumes "filterGames svc (compileFilter svc (req_body req)) = Inr games"
      and "formatGames svc games (requestUser req) = Inr fg"
      and "user req = Some u"
      and "getAccountFromCid svc (cid u) = Inr None"
  shows "\<exists>dtos. postFilter svc req = Inr \<lparr>status = 200, json = dtos\<rparr> \<and>
           length dtos = length games \<and>
           (\<forall>i<length games.
               dto_isPlayed (dtos ! i) =
                 (\<exists>p\<in>set (game_playStatus (games ! i)). userId p = None))"
proof -
  have len: "length fg = length games"
    using assms(2) by (simp add: formatGames_Inr)
  show ?thesis
    using postFilter_resolved[OF assms] len
    by (simp add: playedBy_iff)
qed

theorem unresolved_account_has_no_marks_witness:
  "filterGames (sampleServices sampleStore)
     (compileFilter (sampleServices sampleStore)
        (req_body (sampleRequest (Some \<lparr>cid = ''cid9''\<rparr>) emptyBody))) = Inr sampleStore \<and>
   user (sampleRequest (Some \<lparr>cid = ''cid9''\<rparr>) emptyBody) = Some \<lparr>cid = ''cid9''\<rparr> \<and>
   getAccountFromCid (sampleServices sampleStore) (cid \<lparr>cid = ''cid9''\<rparr>) = Inr None \<and>
   (\<exists>dtos. postFilter (sampleServices sampleStore)
              (sampleRequest (Some \<lparr>cid = ''cid9''\<rparr>) emptyBody) =
              Inr \<lparr>status = 200, json = dtos\<rparr> \<and>
            length dtos = 3 \<and>
            \<not> dto_isPlayed (dtos ! 0) \<and> dto_isPlayed (dtos ! 1) \<and>
            \<not> dto_isPlayed (dtos ! 2))"
proof -
  let ?svc = "sampleServices sampleStore"
  let ?req = "sampleRequest (Some \<lparr>cid = ''cid9''\<rparr>) emptyBody"
  have h1: "filterGames ?svc (compileFilter ?svc (req_body ?req)) = Inr sampleStore"
    by (rule sample_compile_empty)
  obtain fg where h2: "formatGames ?svc sampleStore (requestUser ?req) = Inr fg"
    using sample_rows[of sampleStore "requestUser ?req"] by simp
  have h3: "user ?req = Some \<lparr>cid = ''cid9''\<rparr>"
    by (simp add: sampleRequest_def)
  have h4: "getAccountFromCid ?svc (cid \<lparr>cid = ''cid9''\<rparr>) = Inr None"
    by (simp add: sampleServices_def)
  have l: "length sampleStore = 3" by (simp add: sampleStore_def)
  have g: "game_playStatus (sampleStore ! 0) = [\<lparr>userId = Some ''acc1''\<rparr>]"
    "game_playStatus (sampleStore ! Suc 0) = [\<lparr>userId = Some ''acc2''\<rparr>, \<lparr>userId = None\<rparr>]"
    "game_playStatus (sampleStore ! 2) = []"
    by (simp_all add: sampleStore_def sampleGame_def)
  from unresolved_account_has_no_marks[OF h1 h2 h3 h4]
  obtain dtos where d: "postFilter ?svc ?req = Inr \<lparr>status = 200, json = dtos\<rparr>"
      "length dtos = length sampleStore"
      "\<forall>i<length sampleStore.
          dto_isPlayed (dtos ! i) =
            (\<exists>p\<in>set (game_playStatus (sampleStore ! i)). userId p = None)"
    by blast
  from d(3) l have
    "dto_isPlayed (dtos ! 0) = (\<exists>p\<in>set (game_playStatus (sampleStore ! 0)). userId p = None)"
    "dto_isPlayed (dtos ! 1) = (\<exists>p\<in>set (game_playStatus (sampleStore ! 1)). userId p = None)"
    "dto_isPlayed (dtos ! 2) = (\<exists>p\<in>set (game_playStatus (sampleStore ! 2)). userId p = None)"
    by simp_all
  then have "\<not> dto_isPlayed (dtos ! 0) \<and> dto_isPlayed (dtos ! 1) \<and> \<not> dto_isPlayed (dtos ! 2)"
    by (simp add: g)
  with d(1,2) l h1 h3 h4 show ?thesis by simp
qed

end
